theory Spec2Isabelle
  imports Complex_Main "HOL-Library.AList"
begin

section \<open>Arrays and exceptions\<close>

text \<open>
  The colorizers of \<^verbatim>\<open>src/colorizers\<close> work on numpy arrays. An array is its shape and its
  samples in row-major order. Samples are real numbers: the arithmetic of the model is
  exact, the dtype conversion \<^verbatim>\<open>astype(np.float32)\<close> keeps every value, and the special
  values of IEEE arithmetic (NaN, the infinities) are not samples.
\<close>

record ndarray =
  shape :: "nat list"
  data :: "real list"

definition wf_ndarray :: "ndarray \<Rightarrow> bool" where
  "wf_ndarray a = (length (data a) = prod_list (shape a))"

definition ndim :: "ndarray \<Rightarrow> nat" where
  "ndim a = length (shape a)"

text \<open>
  The exceptions of the model. \<open>ValueError\<close>, \<open>IndexError\<close>, \<open>TypeError\<close> and \<open>KeyError\<close>
  are Python's, raised by numpy, scikit-image and the interpreter.
  \<open>InvalidImageError\<close> is the name the specification gives to the failure on a bad input
  field; no statement of the source constructs it.
\<close>

datatype py_error = ValueError | IndexError | TypeError | KeyError | InvalidImageError

subsection \<open>numpy operations used by the source\<close>

text \<open>\<^verbatim>\<open>a.max()\<close>: the reduction raises ValueError on an array without samples.\<close>

definition amax :: "ndarray \<Rightarrow> py_error + real" where
  "amax a = (case data a of [] \<Rightarrow> Inl ValueError | x # xs \<Rightarrow> Inr (fold max xs x))"

definition astype_float32 :: "ndarray \<Rightarrow> ndarray" where
  "astype_float32 a = a"

definition copy :: "ndarray \<Rightarrow> ndarray" where
  "copy a = a"

text \<open>\<^verbatim>\<open>a / c\<close> with a scalar \<open>c\<close>.\<close>

definition divide_scalar :: "ndarray \<Rightarrow> real \<Rightarrow> ndarray" where
  "divide_scalar a c = a\<lparr>data := map (\<lambda>x. x / c) (data a)\<rparr>"

text \<open>\<^verbatim>\<open>np.clip(a, lo, hi)\<close> is \<^verbatim>\<open>minimum(maximum(a, lo), hi)\<close>.\<close>

definition clip1 :: "real \<Rightarrow> real \<Rightarrow> real \<Rightarrow> real" where
  "clip1 lo hi x = min (max x lo) hi"

definition np_clip :: "ndarray \<Rightarrow> real \<Rightarrow> real \<Rightarrow> ndarray" where
  "np_clip a lo hi = a\<lparr>data := map (clip1 lo hi) (data a)\<rparr>"

text \<open>
  \<^verbatim>\<open>x % y\<close> on floats takes the sign of the divisor (floored division), for Python's
  scalars and for numpy's arrays alike.
\<close>

definition py_mod :: "real \<Rightarrow> real \<Rightarrow> real" where
  "py_mod x y = x - y * of_int \<lfloor>x / y\<rfloor>"

text \<open>\<^verbatim>\<open>H, W = a.shape\<close>: unpacking a tuple that has not exactly two entries raises ValueError.\<close>

definition unpack2 :: "nat list \<Rightarrow> py_error + nat \<times> nat" where
  "unpack2 s = (case s of [h, w] \<Rightarrow> Inr (h, w) | _ \<Rightarrow> Inl ValueError)"

text \<open>The samples of an array whose last axis has length 3, pixel by pixel.\<close>

fun triples :: "real list \<Rightarrow> (real \<times> real \<times> real) list" where
  "triples (a # b # c # xs) = (a, b, c) # triples xs"
| "triples _ = []"

text \<open>Cutting a flat list into consecutive blocks of \<open>n\<close> entries.\<close>

function blocks :: "nat \<Rightarrow> 'a list \<Rightarrow> 'a list list" where
  "blocks n xs = (if n = 0 \<or> xs = [] then [] else take n xs # blocks n (drop n xs))"
  by pat_completeness auto
termination
  by (relation "measure (\<lambda>(n, xs). length xs)") auto

declare blocks.simps [simp del]

text \<open>
  \<^verbatim>\<open>a[:, :, :3]\<close>: basic slicing of the third axis. With fewer than three axes numpy
  raises IndexError (too many indices).
\<close>

definition index_rgb :: "ndarray \<Rightarrow> py_error + ndarray" where
  "index_rgb a =
     (case shape a of
        s0 # s1 # s2 # rest \<Rightarrow>
          (let inner = prod_list rest in
           Inr \<lparr>shape = s0 # s1 # min s2 3 # rest,
                data = concat (map (take (min s2 3 * inner)) (blocks (s2 * inner) (data a)))\<rparr>)
      | _ \<Rightarrow> Inl IndexError)"

section \<open>The external libraries\<close>

text \<open>
  The source calls scikit-image (\<^verbatim>\<open>color.rgb2gray\<close>, \<^verbatim>\<open>color.hsv2rgb\<close>) and matplotlib
  (the colormap objects of \<^verbatim>\<open>cm\<close>). Their code is not part of the repository. What the
  source needs of them and the specification leaves open is a parameter of the model:
  the luminance of an RGB pixel, the RGBA entry a colormap gives an intensity, and the
  conversion of an integral float to \<^verbatim>\<open>uint8\<close> (outside 0..255 it depends on the platform).
\<close>

datatype cmap =
  Jet | Hot | Cool | Viridis | Plasma | Inferno | Magma | Spring | Summer | Autumn
  | Winter | Rainbow | Turbo | Hsv | Seismic | Terrain

record lib =
  luminance :: "real \<Rightarrow> real \<Rightarrow> real \<Rightarrow> real"
  cm_rgba :: "cmap \<Rightarrow> real \<Rightarrow> real \<times> real \<times> real \<times> real"
  astype_uint8 :: "int \<Rightarrow> nat"

text \<open>
  Modelled from the spec: \<^verbatim>\<open>skimage.color.rgb2gray\<close> is not under src/. Section 4.2 and
  section 7 of the specification: a field with three channels is reduced to one
  intensity per pixel by a luminance weighting; another channel count is an error
  (scikit-image raises ValueError when the last axis has not length 3).
\<close>

definition rgb2gray :: "lib \<Rightarrow> ndarray \<Rightarrow> py_error + ndarray" where
  "rgb2gray L a =
     (if shape a = [] \<or> last (shape a) \<noteq> 3 then Inl ValueError
      else Inr \<lparr>shape = butlast (shape a),
                data = map (\<lambda>(r, g, b). luminance L r g b) (triples (data a))\<rparr>)"

text \<open>
  Modelled from the spec: \<^verbatim>\<open>skimage.color.hsv2rgb\<close> is not under src/. Section 4.3 of the
  specification: the standard hexagonal conversion, six hue sectors of width 1/6, each
  giving RGB from the value \<open>v\<close> and the three interpolated components \<open>p\<close>, \<open>q\<close>, \<open>t\<close>.
  The sector is \<^verbatim>\<open>floor(h * 6).astype(np.uint8) % 6\<close> and selects among six stacked fields
  (\<^verbatim>\<open>np.choose\<close>).
\<close>

definition hsv2rgb_px :: "lib \<Rightarrow> real \<times> real \<times> real \<Rightarrow> real list" where
  "hsv2rgb_px L = (\<lambda>(h, s, v).
     let hi = \<lfloor>h * 6\<rfloor>;
         f = h * 6 - of_int hi;
         p = v * (1 - s);
         q = v * (1 - f * s);
         t = v * (1 - (1 - f) * s)
     in [[v, t, p], [q, v, p], [p, v, t], [p, q, v], [t, p, v], [v, p, q]]
          ! (astype_uint8 L hi mod 6))"

definition hsv2rgb :: "lib \<Rightarrow> ndarray \<Rightarrow> ndarray" where
  "hsv2rgb L a = a\<lparr>data := concat (map (hsv2rgb_px L) (triples (data a)))\<rparr>"

text \<open>
  \<^verbatim>\<open>colormap(img_gray)\<close>: matplotlib maps every sample to an RGBA entry and appends an
  axis of length 4.
\<close>

definition colormap_call :: "lib \<Rightarrow> cmap \<Rightarrow> ndarray \<Rightarrow> ndarray" where
  "colormap_call L c a =
     \<lparr>shape = shape a @ [4],
      data = concat (map (\<lambda>x. case cm_rgba L c x of (r, g, b, al) \<Rightarrow> [r, g, b, al]) (data a))\<rparr>"

section \<open>src/colorizers/hsv\_colorizer.py\<close>

text \<open>
  The first two blocks of \<^verbatim>\<open>colorize_hsv\<close> (lines 26-37) are repeated word for word in
  \<^verbatim>\<open>colorize_hsv_advanced\<close> (lines 82-92) and in \<^verbatim>\<open>colorize_pseudocolor\<close> (lines 52-62
  of pseudocolor\_colorizer.py): the normalization of the input and the reduction to one
  intensity per pixel.
\<close>

definition normalize_input :: "ndarray \<Rightarrow> py_error + ndarray" where
  "normalize_input img_rgb =
     (case amax img_rgb of
        Inl e \<Rightarrow> Inl e
      | Inr m \<Rightarrow>
          if m > 1.0 then Inr (divide_scalar (astype_float32 img_rgb) 255.0)
          else Inr (astype_float32 img_rgb))"

definition to_gray :: "lib \<Rightarrow> ndarray \<Rightarrow> py_error + ndarray" where
  "to_gray L img_rgb_normalized =
     (if ndim img_rgb_normalized = 3 then rgb2gray L img_rgb_normalized
      else Inr (copy img_rgb_normalized))"

definition intensity_field :: "lib \<Rightarrow> ndarray \<Rightarrow> py_error + ndarray" where
  "intensity_field L img_rgb =
     (case normalize_input img_rgb of
        Inl e \<Rightarrow> Inl e
      | Inr img_rgb_normalized \<Rightarrow> to_gray L img_rgb_normalized)"

text \<open>
  \<^verbatim>\<open>img_hsv = np.zeros((H, W, 3))\<close> followed by the three channel assignments: the
  field that holds hue, saturation and value of every pixel.
\<close>

definition stack_hsv :: "nat \<Rightarrow> nat \<Rightarrow> real list \<Rightarrow> real list \<Rightarrow> real list \<Rightarrow> ndarray" where
  "stack_hsv H W H_channel S_channel V =
     \<lparr>shape = [H, W, 3],
      data = concat (map (\<lambda>(h, s, v). [h, s, v]) (zip H_channel (zip S_channel V)))\<rparr>"

text \<open>Lines 39-58 of \<^verbatim>\<open>colorize_hsv\<close>: the HSV field of an intensity field.\<close>

definition img_hsv_basic :: "ndarray \<Rightarrow> py_error + ndarray" where
  "img_hsv_basic img_gray =
     (case unpack2 (shape img_gray) of
        Inl e \<Rightarrow> Inl e
      | Inr (H, W) \<Rightarrow>
          (let V = data img_gray;
               H_channel = map (\<lambda>I. 0.6 - 0.45 * I) (data img_gray);
               S_channel = map (\<lambda>I. 4 * I * (1 - I)) (data img_gray)
           in Inr (stack_hsv H W H_channel S_channel V)))"

definition colorize_hsv :: "lib \<Rightarrow> ndarray \<Rightarrow> py_error + ndarray" where
  "colorize_hsv L img_rgb =
     (case intensity_field L img_rgb of
        Inl e \<Rightarrow> Inl e
      | Inr img_gray \<Rightarrow>
          (case img_hsv_basic img_gray of
             Inl e \<Rightarrow> Inl e
           | Inr img_hsv \<Rightarrow> Inr (np_clip (hsv2rgb L img_hsv) 0 1)))"

text \<open>Lines 94-109 of \<^verbatim>\<open>colorize_hsv_advanced\<close>.\<close>

definition img_hsv_advanced :: "ndarray \<Rightarrow> real \<Rightarrow> real \<Rightarrow> py_error + ndarray" where
  "img_hsv_advanced img_gray hue_shift saturation_boost =
     (case unpack2 (shape img_gray) of
        Inl e \<Rightarrow> Inl e
      | Inr (H, W) \<Rightarrow>
          (let V = data img_gray;
               H_channel = map (\<lambda>I. py_mod (0.6 - 0.45 * I + hue_shift) 1.0) (data img_gray);
               S_channel = map (\<lambda>I. clip1 0 1 (4 * I * (1 - I) * saturation_boost))
                             (data img_gray)
           in Inr (stack_hsv H W H_channel S_channel V)))"

definition colorize_hsv_advanced :: "lib \<Rightarrow> ndarray \<Rightarrow> real \<Rightarrow> real \<Rightarrow> py_error + ndarray" where
  "colorize_hsv_advanced L img_rgb hue_shift saturation_boost =
     (case intensity_field L img_rgb of
        Inl e \<Rightarrow> Inl e
      | Inr img_gray \<Rightarrow>
          (case img_hsv_advanced img_gray hue_shift saturation_boost of
             Inl e \<Rightarrow> Inl e
           | Inr img_hsv \<Rightarrow> Inr (np_clip (hsv2rgb L img_hsv) 0 1)))"

section \<open>src/colorizers/pseudocolor\_colorizer.py\<close>

text \<open>
  The registry is a dict literal: its keys keep the order in which they are written.
  \<open>parula\<close> is bound to the same colormap object as \<open>viridis\<close>.
\<close>

definition COLORMAP_MODES :: "(string \<times> cmap) list" where
  "COLORMAP_MODES =
     [(''jet'', Jet), (''hot'', Hot), (''cool'', Cool), (''viridis'', Viridis),
      (''parula'', Viridis), (''plasma'', Plasma), (''inferno'', Inferno),
      (''magma'', Magma), (''spring'', Spring), (''summer'', Summer),
      (''autumn'', Autumn), (''winter'', Winter), (''rainbow'', Rainbow),
      (''turbo'', Turbo), (''hsv'', Hsv), (''seismic'', Seismic), (''terrain'', Terrain)]"

text \<open>
  \<^verbatim>\<open>str.lower\<close> on the ASCII letters. (No string with a character outside ASCII is
  lowered by Python to a key of the registry, so the membership test below agrees with
  Python's on every string.)
\<close>

definition lower_char :: "char \<Rightarrow> char" where
  "lower_char c =
     (let n = (of_char c :: nat) in if 65 \<le> n \<and> n \<le> 90 then char_of (n + 32) else c)"

definition lower :: "string \<Rightarrow> string" where
  "lower s = map lower_char s"

text \<open>The line that \<^verbatim>\<open>print\<close> writes for an unknown name.\<close>

definition warning_line :: "string \<Rightarrow> string" where
  "warning_line colormap_mode =
     ''Warning: Unknown colormap '' @ [CHR 0x27] @ colormap_mode @ [CHR 0x27]
       @ '', using '' @ [CHR 0x27] @ ''jet'' @ [CHR 0x27] @ '' instead.''"

text \<open>
  Lines 64-78: lookup of the colormap, its application, the slice that drops the alpha
  channel and the final clip. Applied to a 0-dimensional array a matplotlib colormap
  returns a tuple, and indexing the tuple with \<^verbatim>\<open>[:, :, :3]\<close> raises TypeError.
\<close>

definition apply_named_colormap ::
  "lib \<Rightarrow> ndarray \<Rightarrow> string \<Rightarrow> string list \<times> (py_error + ndarray)" where
  "apply_named_colormap L img_gray colormap_mode =
     (let unknown = (lower colormap_mode \<notin> set (map fst COLORMAP_MODES));
          out = (if unknown then [warning_line colormap_mode] else []);
          colormap_mode' = (if unknown then ''jet'' else colormap_mode)
      in case map_of COLORMAP_MODES (lower colormap_mode') of
           None \<Rightarrow> (out, Inl KeyError)
         | Some colormap \<Rightarrow>
             (out,
              if ndim img_gray = 0 then Inl TypeError
              else (case index_rgb (colormap_call L colormap img_gray) of
                      Inl e \<Rightarrow> Inl e
                    | Inr img_colored \<Rightarrow> Inr (np_clip img_colored 0 1))))"

text \<open>
  \<^verbatim>\<open>colorize_pseudocolor\<close> returns the lines written to standard output and either the
  exception raised or the array returned.
\<close>

definition colorize_pseudocolor ::
  "lib \<Rightarrow> ndarray \<Rightarrow> string \<Rightarrow> string list \<times> (py_error + ndarray)" where
  "colorize_pseudocolor L img_rgb colormap_mode =
     (case intensity_field L img_rgb of
        Inl e \<Rightarrow> ([], Inl e)
      | Inr img_gray \<Rightarrow> apply_named_colormap L img_gray colormap_mode)"

text \<open>
  The loop of \<^verbatim>\<open>colorize_pseudocolor_multiple\<close>. \<open>results\<close> is the dict built so far, in
  insertion order: assigning to a key that is present replaces its value in place. An
  exception of a call ends the loop.
\<close>

fun multiple_loop ::
  "lib \<Rightarrow> ndarray \<Rightarrow> string list \<Rightarrow> (string \<times> ndarray) list \<Rightarrow> string list
     \<Rightarrow> string list \<times> (py_error + (string \<times> ndarray) list)" where
  "multiple_loop L img_rgb [] results out = (out, Inr results)"
| "multiple_loop L img_rgb (mode # modes) results out =
     (case colorize_pseudocolor L img_rgb mode of
        (w, Inl e) \<Rightarrow> (out @ w, Inl e)
      | (w, Inr r) \<Rightarrow> multiple_loop L img_rgb modes (AList.update mode r results) (out @ w))"

definition default_colormap_modes :: "string list" where
  "default_colormap_modes = [''jet'', ''hot'', ''viridis'', ''plasma'']"

definition colorize_pseudocolor_multiple ::
  "lib \<Rightarrow> ndarray \<Rightarrow> string list option
     \<Rightarrow> string list \<times> (py_error + (string \<times> ndarray) list)" where
  "colorize_pseudocolor_multiple L img_rgb colormap_modes =
     multiple_loop L img_rgb
       (case colormap_modes of None \<Rightarrow> default_colormap_modes | Some ms \<Rightarrow> ms) [] []"

definition get_available_colormaps :: "string list" where
  "get_available_colormaps = map fst COLORMAP_MODES"

section \<open>Valid input images\<close>

text \<open>
  A valid input image, as the docstrings of the colorizers describe their argument: a
  well-formed array without an empty axis that is either two-dimensional (grayscale,
  shape \<open>[H, W]\<close>) or three-dimensional with three channels (RGB, shape \<open>[H, W, 3]\<close>).
  Its samples are arbitrary numbers.
\<close>

definition valid_image :: "ndarray \<Rightarrow> bool" where
  "valid_image a =
     (wf_ndarray a \<and> data a \<noteq> [] \<and> (ndim a = 2 \<or> (ndim a = 3 \<and> last (shape a) = 3)))"


section \<open>The rule of the specification\<close>



section \<open>Instances used to evaluate the model\<close>

text \<open>
  A library instance: the luminance weights of scikit-image, colormaps that all return
  the grey ramp, and the conversion to \<^verbatim>\<open>uint8\<close> that wraps modulo 256.
\<close>

definition ref_lib :: lib where
  "ref_lib =
     \<lparr>luminance = (\<lambda>r g b. 0.2125 * r + 0.7154 * g + 0.0721 * b),
      cm_rgba = (\<lambda>c x. (x, x, x, 1)),
      astype_uint8 = (\<lambda>i. nat (i mod 256))\<rparr>"

section \<open>Auxiliary facts\<close>

subsection \<open>Arrays\<close>

lemma fold_max_Max: "fold max xs (x::real) = Max (set (x # xs))"
  using Max.set_eq_fold [of x xs] by simp

lemma amax_nonempty: "data a \<noteq> [] \<Longrightarrow> amax a = Inr (Max (set (data a)))"
  by (cases "data a") (simp_all add: amax_def fold_max_Max)

lemma amax_empty: "data a = [] \<Longrightarrow> amax a = Inl ValueError"
  by (simp add: amax_def)

lemma normalize_input_cases:
  "normalize_input a =
     (if data a = [] then Inl ValueError
      else if Max (set (data a)) > 1 then Inr (a\<lparr>data := map (\<lambda>x. x / 255) (data a)\<rparr>)
      else Inr a)"
  by (simp add: normalize_input_def amax_nonempty amax_empty astype_float32_def divide_scalar_def)

lemma normalize_input_shape:
  "normalize_input a = Inr n \<Longrightarrow> shape n = shape a \<and> length (data n) = length (data a) \<and> data a \<noteq> []"
  by (auto simp: normalize_input_cases split: if_splits)

lemma length_triples: "length (triples xs) = length xs div 3"
  by (induction xs rule: triples.induct) simp_all

lemma triples_concat:
  "triples (concat (map (\<lambda>(h, s, v). [h, s, v]) ts)) = ts"
  by (induction ts) auto

lemma blocks_append:
  "n > 0 \<Longrightarrow> length x = n \<Longrightarrow> blocks n (x @ rest) = x # blocks n rest"
  by (subst blocks.simps) auto

lemma blocks_Nil: "blocks n [] = []"
  by (subst blocks.simps) simp

lemma blocks_concat:
  "n > 0 \<Longrightarrow> \<forall>x\<in>set xss. length x = n \<Longrightarrow> blocks n (concat xss) = xss"
  by (induction xss) (simp_all add: blocks_Nil blocks_append)

lemma prod_list_butlast:
  "s \<noteq> [] \<Longrightarrow> prod_list s = prod_list (butlast s) * last s"
  by (induction s) (auto simp: mult.assoc)

lemma length_hsv2rgb_px: "length (hsv2rgb_px L t) = 3"
proof -
  obtain h s v where t: "t = (h, s, v)" by (cases t) auto
  have "astype_uint8 L \<lfloor>h * 6\<rfloor> mod 6 < 6" by simp
  then consider "astype_uint8 L \<lfloor>h * 6\<rfloor> mod 6 = 0" | "astype_uint8 L \<lfloor>h * 6\<rfloor> mod 6 = 1"
    | "astype_uint8 L \<lfloor>h * 6\<rfloor> mod 6 = 2" | "astype_uint8 L \<lfloor>h * 6\<rfloor> mod 6 = 3"
    | "astype_uint8 L \<lfloor>h * 6\<rfloor> mod 6 = 4" | "astype_uint8 L \<lfloor>h * 6\<rfloor> mod 6 = 5"
    by linarith
  then show ?thesis
    by cases (simp_all add: t hsv2rgb_px_def Let_def)
qed


lemma intensity_field_valid:
  assumes "valid_image a"
  shows "\<exists>g. intensity_field L a = Inr g \<and> shape g = take 2 (shape a)
           \<and> length (shape g) = 2
           \<and> length (data g) = prod_list (shape g) \<and> data g \<noteq> []"
proof -
  from assms have ne: "data a \<noteq> []" and wf: "length (data a) = prod_list (shape a)"
    and dims: "ndim a = 2 \<or> (ndim a = 3 \<and> last (shape a) = 3)"
    by (simp_all add: valid_image_def wf_ndarray_def)
  obtain n where n: "normalize_input a = Inr n"
    using ne by (cases "1 < Max (set (data a))") (auto simp: normalize_input_cases)
  have sn: "shape n = shape a" and ln: "length (data n) = length (data a)"
    using normalize_input_shape [OF n] by simp_all
  from dims show ?thesis
  proof
    assume d2: "ndim a = 2"
    then have "to_gray L n = Inr n"
      by (simp add: to_gray_def ndim_def sn copy_def)
    then show ?thesis
      using n sn ln wf ne d2 by (auto simp: intensity_field_def ndim_def)
  next
    assume d3: "ndim a = 3 \<and> last (shape a) = 3"
    then have s3: "shape a \<noteq> []" and l3: "length (shape a) = 3" and last3: "last (shape a) = 3"
      by (auto simp: ndim_def)
    let ?g = "\<lparr>shape = butlast (shape a),
               data = map (\<lambda>(r, g, b). luminance L r g b) (triples (data n))\<rparr>"
    have tg: "to_gray L n = Inr ?g"
      using s3 l3 last3 by (simp add: to_gray_def ndim_def sn rgb2gray_def)
    have bl: "butlast (shape a) = take 2 (shape a)"
      using l3 by (simp add: butlast_conv_take)
    have pl: "prod_list (shape a) = prod_list (butlast (shape a)) * 3"
      using prod_list_butlast [OF s3] last3 by simp
    have len: "length (data ?g) = prod_list (butlast (shape a))"
      using ln wf pl by (simp add: length_triples)
    have pos: "prod_list (butlast (shape a)) > 0"
      using ne wf pl by (cases "prod_list (butlast (shape a))") auto
    show ?thesis
      using n tg bl len pos l3 by (auto simp: intensity_field_def)
  qed
qed

lemma length2_shape: "length (s::nat list) = 2 \<Longrightarrow> \<exists>H W. s = [H, W]"
  by (cases s; cases "tl s") auto

lemma zip_hsv_channels:
  "zip (map fh g) (zip (map fs g) g) = map (\<lambda>I. (fh I, fs I, I)) g"
  by (induction g) simp_all

lemma data_clip_hsv2rgb_stack:
  "data (np_clip (hsv2rgb L (stack_hsv H W (map fh g) (map fs g) g)) 0 1)
     = concat (map (\<lambda>I. map (clip1 0 1) (hsv2rgb_px L (fh I, fs I, I))) g)"
proof -
  let ?st = "stack_hsv H W (map fh g) (map fs g) g"
  have d: "data ?st = concat (map (\<lambda>(h, s, v). [h, s, v]) (map (\<lambda>I. (fh I, fs I, I)) g))"
    by (simp only: stack_hsv_def zip_hsv_channels ndarray.select_convs)
  have t: "triples (data ?st) = map (\<lambda>I. (fh I, fs I, I)) g"
    unfolding d by (rule triples_concat)
  have "data (np_clip (hsv2rgb L ?st) 0 1)
          = map (clip1 0 1) (concat (map (hsv2rgb_px L) (triples (data ?st))))"
    by (simp add: np_clip_def hsv2rgb_def)
  also have "\<dots> = concat (map (\<lambda>I. map (clip1 0 1) (hsv2rgb_px L (fh I, fs I, I))) g)"
    unfolding t by (simp add: map_concat comp_def)
  finally show ?thesis .
qed

lemma shape_clip_hsv2rgb_stack:
  "shape (np_clip (hsv2rgb L (stack_hsv H W hs ss vs)) 0 1) = [H, W, 3]"
  by (simp add: np_clip_def hsv2rgb_def stack_hsv_def)

lemma img_hsv_basic_2d:
  "shape g = [H, W] \<Longrightarrow>
   img_hsv_basic g = Inr (stack_hsv H W (map (\<lambda>I. 0.6 - 0.45 * I) (data g))
                                  (map (\<lambda>I. 4 * I * (1 - I)) (data g)) (data g))"
  by (simp add: img_hsv_basic_def unpack2_def)

lemma img_hsv_advanced_2d:
  "shape g = [H, W] \<Longrightarrow>
   img_hsv_advanced g hs sb =
     Inr (stack_hsv H W (map (\<lambda>I. py_mod (0.6 - 0.45 * I + hs) 1) (data g))
            (map (\<lambda>I. clip1 0 1 (4 * I * (1 - I) * sb)) (data g)) (data g))"
  by (simp add: img_hsv_advanced_def unpack2_def)

lemma unpack2_not2: "length s \<noteq> 2 \<Longrightarrow> unpack2 s = Inl ValueError"
  by (cases s; cases "tl s"; cases "tl (tl s)") (auto simp: unpack2_def)


lemma intensity_field_invalid:
  assumes "wf_ndarray a"
    and "0 \<in> set (shape a) \<or> (ndim a = 3 \<and> last (shape a) \<noteq> 3)"
  shows "intensity_field L a = Inl ValueError"
proof (cases "data a = []")
  case True
  then show ?thesis
    by (simp add: intensity_field_def normalize_input_cases)
next
  case False
  have "length (data a) = prod_list (shape a)"
    using assms(1) by (simp add: wf_ndarray_def)
  with False have "prod_list (shape a) \<noteq> 0"
    by (metis length_0_conv)
  then have "0 \<notin> set (shape a)"
    by (simp add: prod_list_zero_iff)
  with assms(2) have d3: "ndim a = 3" and l3: "last (shape a) \<noteq> 3"
    by simp_all
  obtain n where n: "normalize_input a = Inr n"
    using False by (cases "1 < Max (set (data a))") (auto simp: normalize_input_cases)
  have sn: "shape n = shape a"
    using normalize_input_shape [OF n] by simp
  show ?thesis
    using n sn d3 l3 by (simp add: intensity_field_def to_gray_def ndim_def rgb2gray_def)
qed

subsection \<open>Pixels\<close>

lemma py_mod_1: "py_mod x 1 = frac x"
  by (simp add: py_mod_def frac_def)


lemma frac_unit: "0 \<le> x \<Longrightarrow> x < 1 \<Longrightarrow> frac (x::real) = x"
  by (simp add: frac_eq)

lemma sat_unit:
  assumes "0 \<le> I" "I \<le> 1"
  shows "0 \<le> 4 * I * (1 - I) \<and> 4 * I * (1 - I) \<le> (1::real)"
proof
  show "0 \<le> 4 * I * (1 - I)" using assms by simp
  have "1 - 4 * I * (1 - I) = (1 - 2 * I)\<^sup>2" by (simp add: power2_eq_square algebra_simps)
  then have "0 \<le> 1 - 4 * I * (1 - I)" by simp
  then show "4 * I * (1 - I) \<le> 1" by simp
qed

lemma sat_outside:
  assumes "I < 0 \<or> 1 < (I::real)"
  shows "4 * I * (1 - I) < 0"
  using assms by (auto simp: mult_less_0_iff)

lemma px_components:
  "\<exists>f. 0 \<le> f \<and> f < 1 \<and>
     set (hsv2rgb_px L (h, s, v)) \<subseteq> {v, v * (1 - s), v * (1 - f * s), v * (1 - (1 - f) * s)}
     \<and> length (hsv2rgb_px L (h, s, v)) = 3"
proof -
  let ?f = "h * 6 - of_int \<lfloor>h * 6\<rfloor>"
  have f: "0 \<le> ?f \<and> ?f < 1" by linarith
  have "astype_uint8 L \<lfloor>h * 6\<rfloor> mod 6 < 6" by simp
  then consider "astype_uint8 L \<lfloor>h * 6\<rfloor> mod 6 = 0" | "astype_uint8 L \<lfloor>h * 6\<rfloor> mod 6 = 1"
    | "astype_uint8 L \<lfloor>h * 6\<rfloor> mod 6 = 2" | "astype_uint8 L \<lfloor>h * 6\<rfloor> mod 6 = 3"
    | "astype_uint8 L \<lfloor>h * 6\<rfloor> mod 6 = 4" | "astype_uint8 L \<lfloor>h * 6\<rfloor> mod 6 = 5"
    by linarith
  then have "set (hsv2rgb_px L (h, s, v))
      \<subseteq> {v, v * (1 - s), v * (1 - ?f * s), v * (1 - (1 - ?f) * s)}"
    by cases (simp_all add: hsv2rgb_px_def Let_def)
  with f show ?thesis
    using length_hsv2rgb_px by blast
qed

lemma map_const3: "length xs = 3 \<Longrightarrow> \<forall>x\<in>set xs. g x = c \<Longrightarrow> map g xs = [c, c, c]"
  by (cases xs; cases "tl xs"; cases "tl (tl xs)") auto

lemma px_above:
  assumes "1 \<le> v" "s \<le> 0"
  shows "map (clip1 0 1) (hsv2rgb_px L (h, s, v)) = [1, 1, 1]"
proof -
  obtain f where f: "0 \<le> f" "f < 1"
    and sub: "set (hsv2rgb_px L (h, s, v)) \<subseteq> {v, v * (1 - s), v * (1 - f * s), v * (1 - (1 - f) * s)}"
    and len: "length (hsv2rgb_px L (h, s, v)) = 3"
    using px_components by blast
  have k: "1 \<le> v * k" if "1 \<le> k" for k
    using assms(1) that by (metis mult_mono mult_1 zero_le_one order_trans)
  have "f * s \<le> 0" using f assms(2) by (simp add: mult_nonneg_nonpos)
  moreover have "(1 - f) * s \<le> 0" using f assms(2) by (simp add: mult_nonneg_nonpos)
  ultimately have "\<forall>x\<in>{v, v * (1 - s), v * (1 - f * s), v * (1 - (1 - f) * s)}. 1 \<le> x"
    using assms k by auto
  with sub have "\<forall>x\<in>set (hsv2rgb_px L (h, s, v)). clip1 0 1 x = 1"
    by (auto simp: clip1_def)
  with len show ?thesis by (rule map_const3)
qed

lemma px_below:
  assumes "v \<le> 0" "s \<le> 0"
  shows "map (clip1 0 1) (hsv2rgb_px L (h, s, v)) = [0, 0, 0]"
proof -
  obtain f where f: "0 \<le> f" "f < 1"
    and sub: "set (hsv2rgb_px L (h, s, v)) \<subseteq> {v, v * (1 - s), v * (1 - f * s), v * (1 - (1 - f) * s)}"
    and len: "length (hsv2rgb_px L (h, s, v)) = 3"
    using px_components by blast
  have k: "v * k \<le> 0" if "0 \<le> k" for k
    using assms(1) that by (simp add: mult_nonpos_nonneg)
  have "f * s \<le> 0" using f assms(2) by (simp add: mult_nonneg_nonpos)
  moreover have "(1 - f) * s \<le> 0" using f assms(2) by (simp add: mult_nonneg_nonpos)
  ultimately have "\<forall>x\<in>{v, v * (1 - s), v * (1 - f * s), v * (1 - (1 - f) * s)}. x \<le> 0"
    using assms k by auto
  with sub have "\<forall>x\<in>set (hsv2rgb_px L (h, s, v)). clip1 0 1 x = 0"
    by (auto simp: clip1_def)
  with len show ?thesis by (rule map_const3)
qed

lemma px_basic_advanced:
  "map (clip1 0 1) (hsv2rgb_px L (0.6 - 0.45 * I, 4 * I * (1 - I), I))
     = map (clip1 0 1)
         (hsv2rgb_px L (py_mod (0.6 - 0.45 * I + 0) 1, clip1 0 1 (4 * I * (1 - I) * 1), I))"
proof -
  consider "I < 0" | "0 \<le> I \<and> I \<le> 1" | "1 < I" by linarith
  then show ?thesis
  proof cases
    case 1
    then have s: "4 * I * (1 - I) < 0" using sat_outside by blast
    then have s': "clip1 0 1 (4 * I * (1 - I) * 1) = 0" by (simp add: clip1_def)
    have a: "map (clip1 0 1) (hsv2rgb_px L (0.6 - 0.45 * I, 4 * I * (1 - I), I)) = [0, 0, 0]"
      using 1 s by (intro px_below) simp_all
    have b: "map (clip1 0 1)
               (hsv2rgb_px L (py_mod (0.6 - 0.45 * I + 0) 1, clip1 0 1 (4 * I * (1 - I) * 1), I))
             = [0, 0, 0]"
      unfolding s' using 1 by (intro px_below) simp_all
    show ?thesis by (simp only: a b)
  next
    case 2
    then have u: "0 \<le> 4 * I * (1 - I) \<and> 4 * I * (1 - I) \<le> 1" using sat_unit by blast
    then have s': "clip1 0 1 (4 * I * (1 - I) * 1) = 4 * I * (1 - I)" by (simp add: clip1_def)
    have "0 \<le> 0.6 - 0.45 * I \<and> 0.6 - 0.45 * I < 1" using 2 by simp
    then have h': "py_mod (0.6 - 0.45 * I + 0) 1 = 0.6 - 0.45 * I"
      by (simp add: py_mod_1 frac_unit)
    show ?thesis by (simp only: s' h')
  next
    case 3
    then have s: "4 * I * (1 - I) < 0" using sat_outside by blast
    then have s': "clip1 0 1 (4 * I * (1 - I) * 1) = 0" by (simp add: clip1_def)
    have a: "map (clip1 0 1) (hsv2rgb_px L (0.6 - 0.45 * I, 4 * I * (1 - I), I)) = [1, 1, 1]"
      using 3 s by (intro px_above) simp_all
    have b: "map (clip1 0 1)
               (hsv2rgb_px L (py_mod (0.6 - 0.45 * I + 0) 1, clip1 0 1 (4 * I * (1 - I) * 1), I))
             = [1, 1, 1]"
      unfolding s' using 3 by (intro px_above) simp_all
    show ?thesis by (simp only: a b)
  qed
qed



subsection \<open>Colormaps\<close>

lemma lower_jet: "lower ''jet'' = ''jet''"
  by code_simp

lemma lower_parula: "lower ''parula'' = ''parula''"
  by code_simp

lemma lower_viridis: "lower ''viridis'' = ''viridis''"
  by code_simp

lemma jet_registered: "map_of COLORMAP_MODES ''jet'' = Some Jet"
  by (simp add: COLORMAP_MODES_def)

lemma registered_iff:
  "(map_of COLORMAP_MODES k = None) = (k \<notin> set (map fst COLORMAP_MODES))"
  by (simp add: map_of_eq_None_iff)

lemma index_rgb_colormap_call:
  assumes "shape g = [H, W]"
  shows "index_rgb (colormap_call L c g)
           = Inr \<lparr>shape = [H, W, 3],
                  data = concat (map (\<lambda>x. case cm_rgba L c x of (r, g, b, al) \<Rightarrow> [r, g, b])
                                   (data g))\<rparr>"
proof -
  let ?f4 = "\<lambda>x. case cm_rgba L c x of (r, g, b, al) \<Rightarrow> [r, g, b, al]"
  have len: "\<forall>x\<in>set (map ?f4 (data g)). length x = 4"
    by (auto split: prod.splits)
  have b: "blocks 4 (concat (map ?f4 (data g))) = map ?f4 (data g)"
    using blocks_concat [OF _ len] by simp
  have t: "take 3 \<circ> ?f4 = (\<lambda>x. case cm_rgba L c x of (r, g, b, al) \<Rightarrow> [r, g, b])"
    by (auto simp: fun_eq_iff split: prod.splits)
  show ?thesis
    using assms b t by (simp add: index_rgb_def colormap_call_def)
qed

lemma apply_named_colormap_2d:
  assumes "shape g = [H, W]"
  shows "\<exists>c. apply_named_colormap L g name
           = (if lower name \<notin> set (map fst COLORMAP_MODES) then [warning_line name] else [],
              Inr \<lparr>shape = [H, W, 3],
                   data = map (clip1 0 1)
                     (concat (map (\<lambda>x. case cm_rgba L c x of (r, g, b, al) \<Rightarrow> [r, g, b])
                                (data g)))\<rparr>)"
proof (cases "lower name \<in> set (map fst COLORMAP_MODES)")
  case True
  then obtain c where c: "map_of COLORMAP_MODES (lower name) = Some c"
    using registered_iff [of "lower name"] by auto
  show ?thesis
    using True c assms
    by (intro exI [of _ c])
      (simp add: apply_named_colormap_def ndim_def index_rgb_colormap_call np_clip_def)
next
  case False
  show ?thesis
    using False assms
    by (intro exI [of _ Jet])
      (simp add: apply_named_colormap_def ndim_def index_rgb_colormap_call np_clip_def
        lower_jet jet_registered)
qed

lemma apply_named_colormap_unknown:
  assumes "lower name \<notin> set (map fst COLORMAP_MODES)"
  shows "apply_named_colormap L g name
           = ([warning_line name], snd (apply_named_colormap L g ''jet''))
         \<and> fst (apply_named_colormap L g ''jet'') = []"
proof -
  have j: "lower ''jet'' \<in> set (map fst COLORMAP_MODES)"
    by (simp add: lower_jet COLORMAP_MODES_def)
  show ?thesis
    using assms j by (simp add: apply_named_colormap_def lower_jet jet_registered)
qed


lemma colorize_pseudocolor_valid:
  assumes "valid_image img_rgb"
  shows "\<exists>w r. colorize_pseudocolor L img_rgb m = (w, Inr r)"
proof -
  obtain g where g: "intensity_field L img_rgb = Inr g" and l2: "length (shape g) = 2"
    using intensity_field_valid [OF assms] by blast
  obtain H W where hw: "shape g = [H, W]" using l2 length2_shape by blast
  show ?thesis
    using g apply_named_colormap_2d [OF hw, of L m]
    by (auto simp: colorize_pseudocolor_def)
qed

lemma multiple_loop_ok:
  assumes "\<forall>m\<in>set modes. \<exists>w r. colorize_pseudocolor L img m = (w, Inr r)"
  shows "\<exists>res. multiple_loop L img modes results out
                 = (out @ concat (map (\<lambda>m. fst (colorize_pseudocolor L img m)) modes), Inr res)
          \<and> fst ` set res = fst ` set results \<union> set modes
          \<and> (distinct (map fst results) \<longrightarrow> distinct (map fst res))
          \<and> (\<forall>m\<in>set modes. \<exists>r. map_of res m = Some r
                                \<and> snd (colorize_pseudocolor L img m) = Inr r)
          \<and> (\<forall>k. k \<notin> set modes \<longrightarrow> map_of res k = map_of results k)"
  using assms
proof (induction modes arbitrary: results out)
  case Nil
  then show ?case by simp
next
  case (Cons m ms)
  then obtain w r where cp: "colorize_pseudocolor L img m = (w, Inr r)"
    by auto
  have rest: "\<forall>m\<in>set ms. \<exists>w r. colorize_pseudocolor L img m = (w, Inr r)"
    using Cons.prems by simp
  obtain res where
    1: "multiple_loop L img ms (AList.update m r results) (out @ w)
          = ((out @ w) @ concat (map (\<lambda>m. fst (colorize_pseudocolor L img m)) ms), Inr res)"
    and 2: "fst ` set res = fst ` set (AList.update m r results) \<union> set ms"
    and 3: "distinct (map fst (AList.update m r results)) \<longrightarrow> distinct (map fst res)"
    and 4: "\<forall>k\<in>set ms. \<exists>r. map_of res k = Some r
                                \<and> snd (colorize_pseudocolor L img k) = Inr r"
    and 5: "\<forall>k. k \<notin> set ms \<longrightarrow> map_of res k = map_of (AList.update m r results) k"
    using Cons.IH [OF rest, of "AList.update m r results" "out @ w"] by blast
  have a: "multiple_loop L img (m # ms) results out
          = (out @ concat (map (\<lambda>m. fst (colorize_pseudocolor L img m)) (m # ms)), Inr res)"
    using 1 cp by simp
  have b: "fst ` set res = fst ` set results \<union> set (m # ms)"
    using 2 by (auto simp: dom_update)
  have c: "distinct (map fst results) \<longrightarrow> distinct (map fst res)"
    using 3 by (simp add: distinct_update)
  have d: "\<forall>k\<in>set (m # ms). \<exists>r. map_of res k = Some r
                                \<and> snd (colorize_pseudocolor L img k) = Inr r"
  proof
    fix k assume k: "k \<in> set (m # ms)"
    show "\<exists>r. map_of res k = Some r \<and> snd (colorize_pseudocolor L img k) = Inr r"
    proof (cases "k \<in> set ms")
      case True
      then show ?thesis using 4 by blast
    next
      case False
      then have "k = m" using k by simp
      then show ?thesis using False 5 cp by (simp add: update_conv)
    qed
  qed
  have e: "\<forall>k. k \<notin> set (m # ms) \<longrightarrow> map_of res k = map_of results k"
    using 5 by (simp add: update_conv)
  show ?case
    using a b c d e by blast
qed

section \<open>Verified properties\<close>







text \<open>
  C4, as the code has it. The source defines no \<open>InvalidImageError\<close> and checks nothing
  itself: a field without samples (some axis of length 0) fails in the reduction
  \<^verbatim>\<open>img_rgb.max()\<close>, and a three-dimensional field whose last axis has not length 3 fails
  in \<^verbatim>\<open>rgb2gray\<close>, both with ValueError. The exception ends the call: no field is
  returned and no line is written. \<open>colorize_pseudocolor_multiple\<close> fails in its first
  call, with the default list and with every list that has a name; with the empty list
  it calls nothing and returns the empty dict.
\<close>

theorem invalid_image_raises_ValueError:
  assumes "wf_ndarray a"
    and "0 \<in> set (shape a) \<or> (ndim a = 3 \<and> last (shape a) \<noteq> 3)"
  shows "colorize_hsv L a = Inl ValueError
       \<and> colorize_hsv_advanced L a hue_shift saturation_boost = Inl ValueError
       \<and> colorize_pseudocolor L a colormap_mode = ([], Inl ValueError)
       \<and> colorize_pseudocolor_multiple L a None = ([], Inl ValueError)
       \<and> colorize_pseudocolor_multiple L a (Some (m # ms)) = ([], Inl ValueError)
       \<and> colorize_pseudocolor_multiple L a (Some []) = ([], Inr [])"
  using intensity_field_invalid [OF assms, of L]
  by (simp add: colorize_hsv_def colorize_hsv_advanced_def colorize_pseudocolor_def
      colorize_pseudocolor_multiple_def default_colormap_modes_def)

theorem invalid_image_raises_ValueError_witness:
  "wf_ndarray \<lparr>shape = [1, 1, 2], data = [10, 20]\<rparr>
   \<and> ndim \<lparr>shape = [1, 1, 2], data = [10, 20]\<rparr> = 3
   \<and> last (shape \<lparr>shape = [1, 1, 2], data = [10, 20]\<rparr>) \<noteq> 3
   \<and> colorize_hsv ref_lib \<lparr>shape = [1, 1, 2], data = [10, 20]\<rparr> = Inl ValueError
   \<and> colorize_hsv_advanced ref_lib \<lparr>shape = [1, 1, 2], data = [10, 20]\<rparr> 0 1 = Inl ValueError
   \<and> colorize_pseudocolor ref_lib \<lparr>shape = [1, 1, 2], data = [10, 20]\<rparr> ''jet''
       = ([], Inl ValueError)
   \<and> colorize_pseudocolor_multiple ref_lib \<lparr>shape = [1, 1, 2], data = [10, 20]\<rparr> None
       = ([], Inl ValueError)
   \<and> colorize_pseudocolor_multiple ref_lib \<lparr>shape = [1, 1, 2], data = [10, 20]\<rparr>
         (Some [''jet'', ''hot'']) = ([], Inl ValueError)
   \<and> colorize_pseudocolor_multiple ref_lib \<lparr>shape = [1, 1, 2], data = [10, 20]\<rparr> (Some [])
       = ([], Inr [])"
proof -
  let ?X = "\<lparr>shape = [1, 1, 2], data = [10, 20]\<rparr>"
  have w: "wf_ndarray ?X"
    by (simp add: wf_ndarray_def)
  have d: "ndim ?X = 3" and l: "last (shape ?X) \<noteq> 3"
    by (simp_all add: ndim_def)
  have c: "0 \<in> set (shape ?X) \<or> (ndim ?X = 3 \<and> last (shape ?X) \<noteq> 3)"
    using d l by simp
  show ?thesis
    using w d l invalid_image_raises_ValueError [OF w c, of ref_lib 0 1 "''jet''" "''jet''" "[''hot'']"]
    by simp
qed

text \<open>
  The empty field of shape \<open>[0, 0]\<close>: the exception is ValueError, not the
  \<open>InvalidImageError\<close> of the specification.
\<close>

theorem empty_image_raises_ValueError_not_InvalidImageError:
  "wf_ndarray \<lparr>shape = [0, 0], data = []\<rparr>
   \<and> colorize_hsv ref_lib \<lparr>shape = [0, 0], data = []\<rparr> = Inl ValueError
   \<and> colorize_hsv ref_lib \<lparr>shape = [0, 0], data = []\<rparr> \<noteq> Inl InvalidImageError
   \<and> snd (colorize_pseudocolor ref_lib \<lparr>shape = [0, 0], data = []\<rparr> ''jet'') = Inl ValueError
   \<and> snd (colorize_pseudocolor ref_lib \<lparr>shape = [0, 0], data = []\<rparr> ''jet'')
       \<noteq> Inl InvalidImageError"
  by code_simp

text \<open>
  C5. For a valid image and a name whose lower-case form is not in the registry,
  \<open>colorize_pseudocolor\<close> raises nothing: it writes one warning line and returns the very
  field that it returns for the name \<open>jet\<close>, for which it writes nothing.
\<close>

theorem unknown_colormap_falls_back_to_jet:
  assumes "valid_image img_rgb"
    and "lower colormap_mode \<notin> set get_available_colormaps"
  shows "\<exists>out. colorize_pseudocolor L img_rgb colormap_mode
                  = ([warning_line colormap_mode], Inr out)
              \<and> colorize_pseudocolor L img_rgb ''jet'' = ([], Inr out)"
proof -
  obtain g where g: "intensity_field L img_rgb = Inr g" and l2: "length (shape g) = 2"
    using intensity_field_valid [OF assms(1)] by blast
  obtain H W where hw: "shape g = [H, W]" using l2 length2_shape by blast
  have u: "lower colormap_mode \<notin> set (map fst COLORMAP_MODES)"
    using assms(2) by (simp add: get_available_colormaps_def)
  obtain c where c: "apply_named_colormap L g ''jet'' = ([],
       Inr \<lparr>shape = [H, W, 3],
            data = map (clip1 0 1)
              (concat (map (\<lambda>x. case cm_rgba L c x of (r, g, b, al) \<Rightarrow> [r, g, b]) (data g)))\<rparr>)"
    using apply_named_colormap_2d [OF hw, of L "''jet''"]
    by (auto simp: lower_jet COLORMAP_MODES_def)
  show ?thesis
    using g c apply_named_colormap_unknown [OF u, of L g]
    by (simp add: colorize_pseudocolor_def)
qed

theorem unknown_colormap_falls_back_to_jet_witness:
  "valid_image \<lparr>shape = [1, 1], data = [51]\<rparr>
   \<and> lower ''Not-A-Real-Colormap'' \<notin> set get_available_colormaps
   \<and> colorize_pseudocolor ref_lib \<lparr>shape = [1, 1], data = [51]\<rparr> ''Not-A-Real-Colormap''
       = ([warning_line ''Not-A-Real-Colormap''],
          Inr \<lparr>shape = [1, 1, 3], data = [1 / 5, 1 / 5, 1 / 5]\<rparr>)
   \<and> colorize_pseudocolor ref_lib \<lparr>shape = [1, 1], data = [51]\<rparr> ''jet''
       = ([], Inr \<lparr>shape = [1, 1, 3], data = [1 / 5, 1 / 5, 1 / 5]\<rparr>)"
proof -
  let ?X = "\<lparr>shape = [1, 1], data = [51]\<rparr>"
  have v: "valid_image ?X"
    by code_simp
  have u: "lower ''Not-A-Real-Colormap'' \<notin> set get_available_colormaps"
    by code_simp
  have j: "colorize_pseudocolor ref_lib ?X ''jet''
       = ([], Inr \<lparr>shape = [1, 1, 3], data = [1 / 5, 1 / 5, 1 / 5]\<rparr>)"
    by code_simp
  from unknown_colormap_falls_back_to_jet [OF v u, of ref_lib] obtain out
    where 1: "colorize_pseudocolor ref_lib ?X ''Not-A-Real-Colormap''
                = ([warning_line ''Not-A-Real-Colormap''], Inr out)"
      and 2: "colorize_pseudocolor ref_lib ?X ''jet'' = ([], Inr out)"
    by blast
  from 2 j have "out = \<lparr>shape = [1, 1, 3], data = [1 / 5, 1 / 5, 1 / 5]\<rparr>"
    by simp
  with 1 j v u show ?thesis
    by simp
qed

text \<open>
  C6. For a valid image and a list of names, \<open>colorize_pseudocolor_multiple\<close> returns a
  dict whose keys are exactly the given names, each bound to the field that
  \<open>colorize_pseudocolor\<close> returns for the image and that name, and writes the warnings of
  these calls in order. For the list \<open>jet\<close>, \<open>hot\<close> the dict has these two keys in this
  order. Without a list the function uses a default list of four distinct names of the
  registry.
\<close>

theorem colorize_pseudocolor_multiple_mapping:
  assumes "valid_image img_rgb"
  shows "(\<exists>results.
            colorize_pseudocolor_multiple L img_rgb (Some names)
              = (concat (map (\<lambda>m. fst (colorize_pseudocolor L img_rgb m)) names), Inr results)
          \<and> set (map fst results) = set names
          \<and> distinct (map fst results)
          \<and> (\<forall>m\<in>set names. \<exists>r. map_of results m = Some r
                                \<and> snd (colorize_pseudocolor L img_rgb m) = Inr r))
       \<and> (\<exists>r1 r2.
            snd (colorize_pseudocolor_multiple L img_rgb (Some [''jet'', ''hot'']))
              = Inr [(''jet'', r1), (''hot'', r2)]
          \<and> snd (colorize_pseudocolor L img_rgb ''jet'') = Inr r1
          \<and> snd (colorize_pseudocolor L img_rgb ''hot'') = Inr r2)
       \<and> colorize_pseudocolor_multiple L img_rgb None
            = colorize_pseudocolor_multiple L img_rgb (Some [''jet'', ''hot'', ''viridis'', ''plasma''])
       \<and> length default_colormap_modes = 4
       \<and> distinct default_colormap_modes
       \<and> set default_colormap_modes \<subseteq> set get_available_colormaps"
proof -
  have ok: "\<forall>m\<in>set ms. \<exists>w r. colorize_pseudocolor L img_rgb m = (w, Inr r)" for ms
    using colorize_pseudocolor_valid [OF assms] by blast
  have general: "\<exists>results.
            colorize_pseudocolor_multiple L img_rgb (Some names)
              = (concat (map (\<lambda>m. fst (colorize_pseudocolor L img_rgb m)) names), Inr results)
          \<and> set (map fst results) = set names
          \<and> distinct (map fst results)
          \<and> (\<forall>m\<in>set names. \<exists>r. map_of results m = Some r
                                \<and> snd (colorize_pseudocolor L img_rgb m) = Inr r)"
    using multiple_loop_ok [OF ok, where results = "[]" and out = "[]" and modes = names]
    by (auto simp: colorize_pseudocolor_multiple_def)
  obtain w1 r1 where j: "colorize_pseudocolor L img_rgb ''jet'' = (w1, Inr r1)"
    using colorize_pseudocolor_valid [OF assms] by blast
  obtain w2 r2 where h: "colorize_pseudocolor L img_rgb ''hot'' = (w2, Inr r2)"
    using colorize_pseudocolor_valid [OF assms] by blast
  have two: "\<exists>r1 r2.
            snd (colorize_pseudocolor_multiple L img_rgb (Some [''jet'', ''hot'']))
              = Inr [(''jet'', r1), (''hot'', r2)]
          \<and> snd (colorize_pseudocolor L img_rgb ''jet'') = Inr r1
          \<and> snd (colorize_pseudocolor L img_rgb ''hot'') = Inr r2"
    using j h by (simp add: colorize_pseudocolor_multiple_def)
  have dflt: "colorize_pseudocolor_multiple L img_rgb None
            = colorize_pseudocolor_multiple L img_rgb (Some [''jet'', ''hot'', ''viridis'', ''plasma''])"
    by (simp add: colorize_pseudocolor_multiple_def default_colormap_modes_def)
  have four: "length default_colormap_modes = 4 \<and> distinct default_colormap_modes
       \<and> set default_colormap_modes \<subseteq> set get_available_colormaps"
    by (simp add: default_colormap_modes_def get_available_colormaps_def COLORMAP_MODES_def)
  show ?thesis
    using general two dflt four by blast
qed

theorem colorize_pseudocolor_multiple_mapping_witness:
  "valid_image \<lparr>shape = [1, 1], data = [51]\<rparr>
   \<and> colorize_pseudocolor_multiple ref_lib \<lparr>shape = [1, 1], data = [51]\<rparr> (Some [''jet'', ''hot''])
       = ([], Inr [(''jet'', \<lparr>shape = [1, 1, 3], data = [1 / 5, 1 / 5, 1 / 5]\<rparr>),
                   (''hot'', \<lparr>shape = [1, 1, 3], data = [1 / 5, 1 / 5, 1 / 5]\<rparr>)])
   \<and> snd (colorize_pseudocolor ref_lib \<lparr>shape = [1, 1], data = [51]\<rparr> ''jet'')
       = Inr \<lparr>shape = [1, 1, 3], data = [1 / 5, 1 / 5, 1 / 5]\<rparr>
   \<and> snd (colorize_pseudocolor ref_lib \<lparr>shape = [1, 1], data = [51]\<rparr> ''hot'')
       = Inr \<lparr>shape = [1, 1, 3], data = [1 / 5, 1 / 5, 1 / 5]\<rparr>
   \<and> snd (colorize_pseudocolor_multiple ref_lib \<lparr>shape = [1, 1], data = [51]\<rparr> None)
       = Inr [(''jet'', \<lparr>shape = [1, 1, 3], data = [1 / 5, 1 / 5, 1 / 5]\<rparr>),
              (''hot'', \<lparr>shape = [1, 1, 3], data = [1 / 5, 1 / 5, 1 / 5]\<rparr>),
              (''viridis'', \<lparr>shape = [1, 1, 3], data = [1 / 5, 1 / 5, 1 / 5]\<rparr>),
              (''plasma'', \<lparr>shape = [1, 1, 3], data = [1 / 5, 1 / 5, 1 / 5]\<rparr>)]"
proof -
  let ?X = "\<lparr>shape = [1, 1], data = [51]\<rparr>"
  let ?Y = "\<lparr>shape = [1, 1, 3], data = [1 / 5, 1 / 5, 1 / 5]\<rparr>"
  have v: "valid_image ?X"
    by code_simp
  have j: "colorize_pseudocolor ref_lib ?X ''jet'' = ([], Inr ?Y)"
    by code_simp
  have h: "colorize_pseudocolor ref_lib ?X ''hot'' = ([], Inr ?Y)"
    by code_simp
  have four: "colorize_pseudocolor_multiple ref_lib ?X (Some [''jet'', ''hot'', ''viridis'', ''plasma''])
       = ([], Inr [(''jet'', ?Y), (''hot'', ?Y), (''viridis'', ?Y), (''plasma'', ?Y)])"
    by code_simp
  note inst = colorize_pseudocolor_multiple_mapping [OF v, of ref_lib "[''jet'', ''hot'']"]
  from inst obtain r1 r2
    where 1: "snd (colorize_pseudocolor_multiple ref_lib ?X (Some [''jet'', ''hot'']))
                = Inr [(''jet'', r1), (''hot'', r2)]"
      and 2: "snd (colorize_pseudocolor ref_lib ?X ''jet'') = Inr r1"
      and 3: "snd (colorize_pseudocolor ref_lib ?X ''hot'') = Inr r2"
    by blast
  from inst obtain results
    where 4: "colorize_pseudocolor_multiple ref_lib ?X (Some [''jet'', ''hot''])
                = (concat (map (\<lambda>m. fst (colorize_pseudocolor ref_lib ?X m)) [''jet'', ''hot'']),
                   Inr results)"
    by blast
  from inst have 5: "colorize_pseudocolor_multiple ref_lib ?X None
            = colorize_pseudocolor_multiple ref_lib ?X (Some [''jet'', ''hot'', ''viridis'', ''plasma''])"
    by blast
  from 2 j have r1: "r1 = ?Y" by simp
  from 3 h have r2: "r2 = ?Y" by simp
  from 4 j h have 6: "fst (colorize_pseudocolor_multiple ref_lib ?X (Some [''jet'', ''hot''])) = []"
    by simp
  have 7: "colorize_pseudocolor_multiple ref_lib ?X (Some [''jet'', ''hot''])
             = ([], Inr [(''jet'', ?Y), (''hot'', ?Y)])"
    using 1 6 r1 r2 by (simp add: prod_eq_iff)
  show ?thesis
    using v 7 j h 5 four by simp
qed

text \<open>
  C7. On every input, \<open>colorize_hsv\<close> returns what \<open>colorize_hsv_advanced\<close> returns with
  \<open>hue_shift = 0.0\<close> and \<open>saturation_boost = 1.0\<close>: the same exception or the same field.
  For an intensity in \<open>[0, 1]\<close> the modulo and the clamp of the advanced variant change
  nothing; for an intensity outside, both variants clip every channel to the same bound.
\<close>

theorem colorize_hsv_is_advanced_default:
  "colorize_hsv L img_rgb = colorize_hsv_advanced L img_rgb 0.0 1.0"
proof (cases "intensity_field L img_rgb")
  case (Inl e)
  then show ?thesis by (simp add: colorize_hsv_def colorize_hsv_advanced_def)
next
  case (Inr g)
  show ?thesis
  proof (cases "length (shape g) = 2")
    case False
    then show ?thesis
      using Inr by (simp add: colorize_hsv_def colorize_hsv_advanced_def img_hsv_basic_def
          img_hsv_advanced_def unpack2_not2)
  next
    case True
    then obtain H W where hw: "shape g = [H, W]" using length2_shape by blast
    let ?b = "np_clip (hsv2rgb L (stack_hsv H W (map (\<lambda>I. 0.6 - 0.45 * I) (data g))
                 (map (\<lambda>I. 4 * I * (1 - I)) (data g)) (data g))) 0 1"
    let ?a = "np_clip (hsv2rgb L (stack_hsv H W (map (\<lambda>I. py_mod (0.6 - 0.45 * I + 0) 1) (data g))
                 (map (\<lambda>I. clip1 0 1 (4 * I * (1 - I) * 1)) (data g)) (data g))) 0 1"
    have "data ?b = data ?a"
      unfolding data_clip_hsv2rgb_stack using px_basic_advanced by simp
    moreover have "shape ?b = shape ?a" by (simp add: shape_clip_hsv2rgb_stack)
    ultimately have "?b = ?a" by simp
    then show ?thesis
      using Inr hw
      by (simp add: colorize_hsv_def colorize_hsv_advanced_def img_hsv_basic_2d
          img_hsv_advanced_2d)
  qed
qed

theorem colorize_hsv_is_advanced_default_witness:
  "colorize_hsv ref_lib \<lparr>shape = [1, 2], data = [510, 51]\<rparr>
     = Inr \<lparr>shape = [1, 2, 3], data = [1, 1, 1, 9 / 125, 601 / 3125, 1 / 5]\<rparr>
   \<and> colorize_hsv_advanced ref_lib \<lparr>shape = [1, 2], data = [510, 51]\<rparr> 0.0 1.0
     = Inr \<lparr>shape = [1, 2, 3], data = [1, 1, 1, 9 / 125, 601 / 3125, 1 / 5]\<rparr>"
proof -
  have a: "colorize_hsv ref_lib \<lparr>shape = [1, 2], data = [510, 51]\<rparr>
     = Inr \<lparr>shape = [1, 2, 3], data = [1, 1, 1, 9 / 125, 601 / 3125, 1 / 5]\<rparr>"
    by code_simp
  show ?thesis
    using a colorize_hsv_is_advanced_default [of ref_lib "\<lparr>shape = [1, 2], data = [510, 51]\<rparr>"]
    by simp
qed

text \<open>
  C9. The listing operation returns the names of the registry in the order of its
  construction. The list is a constant (the same on every call), it is not empty, and
  \<open>jet\<close>, \<open>hot\<close> and \<open>viridis\<close> are among its names.
\<close>

theorem get_available_colormaps_listing:
  "get_available_colormaps =
     [''jet'', ''hot'', ''cool'', ''viridis'', ''parula'', ''plasma'', ''inferno'', ''magma'',
      ''spring'', ''summer'', ''autumn'', ''winter'', ''rainbow'', ''turbo'', ''hsv'',
      ''seismic'', ''terrain'']
   \<and> get_available_colormaps \<noteq> []
   \<and> ''jet'' \<in> set get_available_colormaps
   \<and> ''hot'' \<in> set get_available_colormaps
   \<and> ''viridis'' \<in> set get_available_colormaps"
  by (simp add: get_available_colormaps_def COLORMAP_MODES_def)

text \<open>
  C10. \<open>colorize_pseudocolor\<close> behaves for the name \<open>parula\<close> as for the name \<open>viridis\<close>,
  on every input: the registry binds both names to the same colormap.
\<close>

theorem parula_is_viridis:
  "colorize_pseudocolor L img_rgb ''parula'' = colorize_pseudocolor L img_rgb ''viridis''"
proof -
  have "apply_named_colormap L g ''parula'' = apply_named_colormap L g ''viridis''" for g
    by (simp add: apply_named_colormap_def lower_parula lower_viridis COLORMAP_MODES_def)
  then show ?thesis
    by (simp add: colorize_pseudocolor_def split: sum.splits)
qed

theorem parula_is_viridis_witness:
  "colorize_pseudocolor ref_lib \<lparr>shape = [1, 1], data = [51]\<rparr> ''parula''
     = ([], Inr \<lparr>shape = [1, 1, 3], data = [1 / 5, 1 / 5, 1 / 5]\<rparr>)
   \<and> colorize_pseudocolor ref_lib \<lparr>shape = [1, 1], data = [51]\<rparr> ''viridis''
     = ([], Inr \<lparr>shape = [1, 1, 3], data = [1 / 5, 1 / 5, 1 / 5]\<rparr>)"
proof -
  have p: "colorize_pseudocolor ref_lib \<lparr>shape = [1, 1], data = [51]\<rparr> ''parula''
     = ([], Inr \<lparr>shape = [1, 1, 3], data = [1 / 5, 1 / 5, 1 / 5]\<rparr>)"
    by code_simp
  show ?thesis
    using p parula_is_viridis [of ref_lib "\<lparr>shape = [1, 1], data = [51]\<rparr>"]
    by simp
qed

end
